theory Spec2Isabelle
  imports Main "HOL-Library.Sublist"
begin

section \<open>Python values, dictionaries and exceptions\<close>

text \<open>
  The exceptions the modelled functions raise. The calliope exceptions carry the
  arguments they are constructed with; \<open>ConflictingArgumentsException\<close> takes any number
  of arguments. \<open>IndexError\<close>, \<open>RequiredPropertyError\<close> and \<open>ZeroDivisionError\<close> are what
  Python and the property store raise on an empty list, an unset required property and a
  zero modulus.
\<close>

datatype exn =
    ToolException string
  | RequiredArgumentException string string
  | InvalidArgumentException string string
  | ConflictingArgumentsException "string list"
  | MalformedInputError string
  | IndexError
  | RequiredPropertyError
  | ZeroDivisionError

text \<open>A dictionary produced by \<open>ArgDict\<close> with string values: \<open>d.get(k)\<close> is \<open>d k\<close>.\<close>

type_synonym pydict = "string \<rightharpoonup> string"

text \<open>Python truthiness of a value that is a string or \<open>None\<close>, and of an int or \<open>None\<close>.\<close>

fun truthy :: "string option \<Rightarrow> bool" where
  "truthy None = False"
| "truthy (Some s) = (s \<noteq> [])"

fun truthy_int :: "int option \<Rightarrow> bool" where
  "truthy_int None = False"
| "truthy_int (Some n) = (n \<noteq> 0)"

text \<open>What \<open>'{0}'.format(v)\<close> prints for a string or \<open>None\<close>.\<close>

fun py_format :: "string option \<Rightarrow> string" where
  "py_format None = ''None''"
| "py_format (Some s) = s"

text \<open>\<open>xs or []\<close> for a list-valued flag that is \<open>None\<close> when it was not given.\<close>

fun or_empty :: "'a list option \<Rightarrow> 'a list" where
  "or_empty None = []"
| "or_empty (Some xs) = xs"

section \<open>Disk flags of the instance commands\<close>

text \<open>
  The attributes of the parsed argument namespace that the disk validators of
  \<open>command_lib/compute/instances/flags.py\<close> read. \<open>--disk\<close> is an appended \<open>ArgDict\<close> flag
  (\<open>None\<close> when absent), \<open>--boot-disk-size\<close> a byte count, \<open>--boot-disk-auto-delete\<close>
  a boolean that defaults to true.
\<close>

record disk_args =
  disk :: "pydict list option"
  instance_names :: "string list"
  image :: "string option"
  boot_disk_device_name :: "string option"
  boot_disk_type :: "string option"
  boot_disk_size :: "int option"
  boot_disk_auto_delete :: bool
  boot_disk_kms_key :: "string option"
  boot_disk_kms_keyring :: "string option"
  boot_disk_kms_location :: "string option"
  boot_disk_kms_project :: "string option"

subsection \<open>ValidateDiskAccessModeFlags\<close>

text \<open>The body of the loop over \<open>args.disk or []\<close>; the first raise ends the loop.\<close>

fun access_mode_loop :: "string list \<Rightarrow> pydict list \<Rightarrow> exn + unit" where
  "access_mode_loop names [] = Inr ()"
| "access_mode_loop names (d # rest) =
     (let disk_name = d ''name''; mode_value = d ''mode'' in
      if length names > 1 \<and> mode_value = Some ''rw''
      then Inl (ToolException (''Cannot attach disk ['' @ py_format disk_name
             @ ''] in read-write mode to more than one instance.''))
      else access_mode_loop names rest)"

definition ValidateDiskAccessModeFlags :: "disk_args \<Rightarrow> exn + unit" where
  "ValidateDiskAccessModeFlags args =
     access_mode_loop (instance_names args) (or_empty (disk args))"

subsection \<open>ValidateDiskBootFlags\<close>

text \<open>The three errors the boot-disk count checks raise, with the source's messages.\<close>

definition invalid_boot_value_error :: "string option \<Rightarrow> exn" where
  "invalid_boot_value_error boot_value =
     ToolException (''Value for [boot] in [--disk] must be [yes] or [no], not [''
       @ py_format boot_value @ ''].'')"

definition two_boot_disks_error :: exn where
  "two_boot_disks_error =
     ToolException (''Each instance can have exactly one boot disk. At least two ''
       @ ''boot disks were specified through [--disk].'')"

definition boot_disk_and_image_error :: exn where
  "boot_disk_and_image_error =
     ToolException (''Each instance can have exactly one boot disk. One boot disk ''
       @ ''was specified through [--disk] and another through [--image].'')"

text \<open>
  The loop over \<open>args.disk or []\<close>, with the local \<open>boot_disk_specified\<close> as an
  accumulator; it returns the final value of that variable unless an entry raises.
\<close>

fun boot_loop :: "bool \<Rightarrow> pydict list \<Rightarrow> exn + bool" where
  "boot_loop boot_disk_specified [] = Inr boot_disk_specified"
| "boot_loop boot_disk_specified (d # rest) =
     (let boot_value = d ''boot'' in
      if truthy boot_value \<and> boot_value \<noteq> Some ''yes'' \<and> boot_value \<noteq> Some ''no''
      then Inl (invalid_boot_value_error boot_value)
      else if boot_value = Some ''yes''
      then (if boot_disk_specified then Inl two_boot_disks_error
            else boot_loop True rest)
      else boot_loop boot_disk_specified rest)"

text \<open>The checks that apply once a boot disk was given through \<open>--disk\<close>.\<close>

definition kms_checks :: "disk_args \<Rightarrow> exn + unit" where
  "kms_checks args =
     (if truthy (boot_disk_kms_key args)
      then Inl (ToolException (''[--boot-disk-kms-key] can only be used when creating a new boot ''
             @ ''disk.''))
      else if truthy (boot_disk_kms_keyring args)
      then Inl (ToolException (''[--boot-disk-kms-keyring] can only be used when creating a new ''
             @ ''boot disk.''))
      else if truthy (boot_disk_kms_location args)
      then Inl (ToolException (''[--boot-disk-kms-location] can only be used when creating a new ''
             @ ''boot disk.''))
      else if truthy (boot_disk_kms_project args)
      then Inl (ToolException (''[--boot-disk-kms-project] can only be used when creating a new ''
             @ ''boot disk.''))
      else Inr ())"

definition new_boot_disk_checks :: "disk_args \<Rightarrow> bool \<Rightarrow> exn + unit" where
  "new_boot_disk_checks args enable_kms =
     (if truthy (boot_disk_device_name args)
      then Inl (ToolException (''[--boot-disk-device-name] can only be used when creating a new ''
             @ ''boot disk.''))
      else if truthy (boot_disk_type args)
      then Inl (ToolException (''[--boot-disk-type] can only be used when creating a new boot ''
             @ ''disk.''))
      else if truthy_int (boot_disk_size args)
      then Inl (ToolException (''[--boot-disk-size] can only be used when creating a new boot ''
             @ ''disk.''))
      else if \<not> boot_disk_auto_delete args
      then Inl (ToolException (''[--no-boot-disk-auto-delete] can only be used when creating a ''
             @ ''new boot disk.''))
      else if enable_kms then kms_checks args
      else Inr ())"

definition ValidateDiskBootFlags :: "disk_args \<Rightarrow> bool \<Rightarrow> exn + unit" where
  "ValidateDiskBootFlags args enable_kms =
     (case boot_loop False (or_empty (disk args)) of
        Inl e \<Rightarrow> Inl e
      | Inr boot_disk_specified \<Rightarrow>
          if truthy (image args) \<and> boot_disk_specified
          then Inl boot_disk_and_image_error
          else if boot_disk_specified then new_boot_disk_checks args enable_kms
          else Inr ())"

text \<open>
  Vocabulary for the statements: the number of entries with \<open>boot=yes\<close>, and the
  entries whose \<open>boot\<close> value the loop accepts (absent, empty, \<open>yes\<close> or \<open>no\<close>).
\<close>

definition yes_count :: "pydict list \<Rightarrow> nat" where
  "yes_count ds = length (filter (\<lambda>d. d ''boot'' = Some ''yes'') ds)"

definition valid_boot :: "pydict \<Rightarrow> bool" where
  "valid_boot d =
     (\<not> truthy (d ''boot'') \<or> d ''boot'' = Some ''yes'' \<or> d ''boot'' = Some ''no'')"

section \<open>Service account and scope flags\<close>

text \<open>
  \<open>--no-service-account\<close> and \<open>--no-scopes\<close> are \<open>store_true\<close> flags; \<open>--scopes\<close> is an
  \<open>ArgList\<close>, \<open>None\<close> when absent.
\<close>

record service_account_args =
  no_service_account :: bool
  no_scopes :: bool
  scopes :: "string list option"

fun scopes_loop :: "string list \<Rightarrow> exn + unit" where
  "scopes_loop [] = Inr ()"
| "scopes_loop (scope # rest) =
     (if scope = []
      then Inl (InvalidArgumentException ''--scopes'' ''Scope cannot be an empty string.'')
      else scopes_loop rest)"

definition ValidateServiceAccountAndScopeArgs :: "service_account_args \<Rightarrow> exn + unit" where
  "ValidateServiceAccountAndScopeArgs args =
     (if no_service_account args \<and> \<not> no_scopes args
      then Inl (RequiredArgumentException ''--no-scopes''
             (''required with argument '' @ ''--no-service-account''))
      else scopes_loop (or_empty (scopes args)))"

section \<open>Network interface flags\<close>

text \<open>
  An entry of \<open>--network-interface\<close> is an \<open>ArgDict\<close> with \<open>allow_key_only\<close>: a key given
  without a value (\<open>no-address\<close>) is present with the value \<open>None\<close>. \<open>k in ni\<close> is
  \<open>ni k \<noteq> None\<close>.
\<close>

type_synonym nidict = "string \<rightharpoonup> string option"

record nic_args =
  network_interface :: "nidict list option"
  address :: "string option"
  network :: "string option"
  private_network_ip :: "string option"
  subnet :: "string option"

text \<open>
  \<open>getattr(args, arg, None)\<close> for the attribute names the function asks for; an attribute
  the parser did not declare reads as \<open>None\<close>, like one that was not given.
\<close>

definition getattr_nic :: "nic_args \<Rightarrow> string \<Rightarrow> string option" where
  "getattr_nic args arg =
     (if arg = ''address'' then address args
      else if arg = ''network'' then network args
      else if arg = ''private_network_ip'' then private_network_ip args
      else if arg = ''subnet'' then subnet args
      else None)"

text \<open>\<open>sep.join(xs)\<close> and \<open>s.replace('_', '-')\<close>.\<close>

fun py_join :: "string \<Rightarrow> string list \<Rightarrow> string" where
  "py_join sep [] = []"
| "py_join sep [x] = x"
| "py_join sep (x # y # ys) = x @ sep @ py_join sep (y # ys)"

definition replace_underscore :: "string \<Rightarrow> string" where
  "replace_underscore s = map (\<lambda>c. if c = CHR ''_'' then CHR ''-'' else c) s"

fun address_loop :: "nidict list \<Rightarrow> exn + unit" where
  "address_loop [] = Inr ()"
| "address_loop (ni # rest) =
     (if ni ''address'' \<noteq> None \<and> ni ''no-address'' \<noteq> None
      then Inl (InvalidArgumentException ''--network-interface''
             ''specifies both address and no-address for one interface'')
      else address_loop rest)"

definition ValidateNicFlags :: "nic_args \<Rightarrow> exn + unit" where
  "ValidateNicFlags args =
     (case network_interface args of
        None \<Rightarrow> Inr ()
      | Some nis \<Rightarrow>
          (case address_loop nis of
             Inl e \<Rightarrow> Inl e
           | Inr _ \<Rightarrow>
               (let conflicting_args =
                      [''address'', ''network'', ''private_network_ip'', ''subnet''];
                    conflicting_args_present =
                      [arg. arg \<leftarrow> conflicting_args, truthy (getattr_nic args arg)]
                in if conflicting_args_present = [] then Inr ()
                   else Inl (ConflictingArgumentsException
                     [''--network-interface'',
                      ''all of the following: '' @ py_join '', ''
                         (map (\<lambda>arg. ''--'' @ replace_underscore arg)
                            conflicting_args_present)]))))"

text \<open>The flags the error names, written flag by flag.\<close>

definition standalone_flags_present :: "nic_args \<Rightarrow> string list" where
  "standalone_flags_present args =
     (if truthy (address args) then [''--address''] else [])
     @ (if truthy (network args) then [''--network''] else [])
     @ (if truthy (private_network_ip args) then [''--private-network-ip''] else [])
     @ (if truthy (subnet args) then [''--subnet''] else [])"

section \<open>Local SSD flags\<close>

text \<open>
  \<open>str(n)\<close> for an integer: its decimal digits, with a minus sign when negative.
  \<open>digit_char\<close> is only applied to numbers below ten.
\<close>

definition digit_char :: "nat \<Rightarrow> char" where
  "digit_char d = ''0123456789'' ! d"

fun str_nat :: "nat \<Rightarrow> string" where
  "str_nat n =
     (if n < 10 then [digit_char n]
      else str_nat (n div 10) @ [digit_char (n mod 10)])"

declare str_nat.simps [simp del]

definition str_int :: "int \<Rightarrow> string" where
  "str_int i = (if i < 0 then ''-'' @ str_nat (nat (- i)) else str_nat (nat i))"

text \<open>
  An entry of \<open>--local-ssd\<close>: an \<open>ArgDict\<close> whose spec fixes the keys \<open>device-name\<close>,
  \<open>interface\<close> and \<open>size\<close> and their types; \<open>local_ssd.get(k)\<close> is the field, \<open>None\<close>
  when the key was not given.
\<close>

record local_ssd_entry =
  ssd_device_name :: "string option"
  ssd_interface :: "string option"
  ssd_size :: "int option"

record local_ssd_args =
  local_ssd :: "local_ssd_entry list option"

definition LOCAL_SSD_INTERFACES :: "string list" where
  "LOCAL_SSD_INTERFACES = [''NVME'', ''SCSI'']"

text \<open>
  \<open>ValidateLocalSsdFlags\<close>. \<open>constants.BYTES_IN_ONE_GB\<close> is declared in another module
  and is taken as the parameter \<open>bytes_in_one_gb\<close>; Python's \<open>%\<close> raises on a zero
  modulus and otherwise agrees with \<open>mod\<close> on \<open>int\<close>.
\<close>

fun local_ssd_loop :: "int \<Rightarrow> local_ssd_entry list \<Rightarrow> exn + unit" where
  "local_ssd_loop bytes_in_one_gb [] = Inr ()"
| "local_ssd_loop bytes_in_one_gb (entry # rest) =
     (let interface = ssd_interface entry in
      if truthy interface \<and> the interface \<notin> set LOCAL_SSD_INTERFACES
      then Inl (InvalidArgumentException ''--local-ssd:interface''
             (''Unexpected local SSD interface: ['' @ py_format interface @ '']. ''
              @ ''Legal values are ['' @ py_join '', '' LOCAL_SSD_INTERFACES @ ''].''))
      else (case ssd_size entry of
              None \<Rightarrow> local_ssd_loop bytes_in_one_gb rest
            | Some sz \<Rightarrow>
                if 375 * bytes_in_one_gb = 0 then Inl ZeroDivisionError
                else if sz mod (375 * bytes_in_one_gb) \<noteq> 0
                then Inl (InvalidArgumentException ''--local-ssd:size''
                       (''Unexpected local SSD size: ['' @ str_int sz @ '']. ''
                        @ ''Legal values are positive multiples of 375GB.''))
                else local_ssd_loop bytes_in_one_gb rest))"

definition ValidateLocalSsdFlags :: "int \<Rightarrow> local_ssd_args \<Rightarrow> exn + unit" where
  "ValidateLocalSsdFlags bytes_in_one_gb args =
     local_ssd_loop bytes_in_one_gb (or_empty (local_ssd args))"

subsection \<open>The byte-size parser\<close>

text \<open>
  Modelled from the spec: \<open>arg_parsers.BinarySize\<close> and \<open>constants.BYTES_IN_ONE_GB\<close> are
  not among the sources. Byte-size parsing accepts a numeric magnitude plus a unit suffix
  (KB/MB/GB/TB), enforces a declared lower bound, and fails with \<open>MalformedInputError\<close>
  if the value is below the bound or not a multiple of a declared granularity. The units
  are the binary ones of the parser's name, a GB being \<open>2 ^ 30\<close> bytes, and the lower
  bound is declared as a size string, as in \<open>BinarySize(lower_bound='375GB')\<close>.
\<close>

text \<open>Modelled from the spec: \<open>constants.BYTES_IN_ONE_GB\<close>, the bytes of the unit GB.\<close>

definition BYTES_IN_ONE_GB :: int where
  "BYTES_IN_ONE_GB = 2 ^ 30"

text \<open>Modelled from the spec: the characters of the numeric magnitude.\<close>

definition is_digit :: "char \<Rightarrow> bool" where
  "is_digit c = (c \<in> set ''0123456789'')"

text \<open>Modelled from the spec: the value of a digit of the magnitude.\<close>

definition digit_value :: "char \<Rightarrow> int" where
  "digit_value c = int (length (takeWhile (\<lambda>d. d \<noteq> c) ''0123456789''))"

text \<open>Modelled from the spec: the numeric magnitude, a non-empty run of digits.\<close>

definition parse_magnitude :: "string \<Rightarrow> int option" where
  "parse_magnitude s =
     (if s = [] \<or> \<not> list_all is_digit s then None
      else Some (foldl (\<lambda>acc c. 10 * acc + digit_value c) 0 s))"

text \<open>Modelled from the spec: the unit suffixes KB, MB, GB and TB.\<close>

definition unit_bytes :: "string \<Rightarrow> int option" where
  "unit_bytes u =
     (if u = ''KB'' then Some (2 ^ 10)
      else if u = ''MB'' then Some (2 ^ 20)
      else if u = ''GB'' then Some BYTES_IN_ONE_GB
      else if u = ''TB'' then Some (2 ^ 40)
      else None)"

text \<open>Modelled from the spec: a size is a magnitude followed by a unit suffix.\<close>

definition parse_size :: "string \<Rightarrow> int option" where
  "parse_size s =
     (case (parse_magnitude (takeWhile is_digit s), unit_bytes (dropWhile is_digit s)) of
        (Some n, Some f) \<Rightarrow> Some (n * f)
      | _ \<Rightarrow> None)"

text \<open>
  Modelled from the spec: \<open>arg_parsers.BinarySize\<close> with its declared lower bound and
  optional granularity; it fails with \<open>MalformedInputError\<close> on an input that is not a
  size, is below the bound, or is not a multiple of the granularity.
\<close>

definition BinarySize :: "string \<Rightarrow> int option \<Rightarrow> string \<Rightarrow> exn + int" where
  "BinarySize lower_bound granularity s =
     (case (parse_size lower_bound, parse_size s) of
        (Some lb, Some v) \<Rightarrow>
          if v < lb then Inl (MalformedInputError s)
          else (case granularity of
                  None \<Rightarrow> Inr v
                | Some g \<Rightarrow> if v mod g \<noteq> 0 then Inl (MalformedInputError s) else Inr v)
      | _ \<Rightarrow> Inl (MalformedInputError s))"

text \<open>
  The \<open>size\<close> key of \<open>--local-ssd\<close> as \<open>AddLocalSsdArgsWithSize\<close> declares it: a lower
  bound and no granularity.
\<close>

definition local_ssd_size_parser :: "string \<Rightarrow> exn + int" where
  "local_ssd_size_parser s = BinarySize ''375GB'' None s"

section \<open>Zone scope lister for underspecified instances\<close>

text \<open>
  The messages and collaborators \<open>InstanceZoneScopeLister\<close> touches, none of which is
  among the sources; they are taken as they are used. An instance carries the reference
  of its zone, a \<open>Zone\<close> message a name. The environment holds the \<open>core/project\<close>
  property, \<open>constants.MAX_RESULTS_PER_PAGE\<close>, and the three calls the lister makes:
  \<open>compute_client.MakeRequests\<close> with \<open>errors_to_collect\<close>, which returns the resources and
  the errors it collected (kept by their printed form), \<open>zones_service.List\<close>, and
  \<open>core_resources.REGISTRY.Parse\<close> on a zone reference, which gives the zone's name.
\<close>

datatype ScopeEnum = ZONE | REGION | GLOBAL

datatype zone_msg = Zone (zone_name: string)

record instance_msg =
  instance_msg_name :: string
  instance_msg_zone :: string

record aggregated_list_request =
  request_filter :: string
  request_project :: string
  request_maxResults :: nat

datatype log_entry = log_debug string | log_status_Print string

record lister_env =
  core_project :: "string option"
  MAX_RESULTS_PER_PAGE :: nat
  MakeRequests :: "aggregated_list_request \<Rightarrow> instance_msg list \<times> string list"
  zones_service_List :: "string \<Rightarrow> zone_msg list"
  REGISTRY_Parse_zone :: "string \<Rightarrow> string \<Rightarrow> string"

text \<open>\<open>'{}'.format(xs)\<close> for a list, its elements given by their printed form.\<close>

definition py_format_list :: "string list \<Rightarrow> string" where
  "py_format_list xs = ''['' @ py_join '', '' xs @ '']''"

definition aggregated_list_request_for :: "lister_env \<Rightarrow> string \<Rightarrow> string \<Rightarrow> aggregated_list_request" where
  "aggregated_list_request_for env project instance_name =
     \<lparr> request_filter = ''name eq ^'' @ instance_name @ ''$'',
       request_project = project,
       request_maxResults = MAX_RESULTS_PER_PAGE env \<rparr>"

text \<open>
  The lister returns the dictionary \<open>{ScopeEnum.ZONE: zones}\<close>; what it logs on the way is
  returned with it. Its second parameter is unused in the source and left out. An empty
  name list raises at \<open>underspecified_names[0]\<close>, an unset project at
  \<open>Get(required=True)\<close>.
\<close>

definition InstanceZoneScopeLister ::
  "lister_env \<Rightarrow> string list \<Rightarrow> exn + (log_entry list \<times> (ScopeEnum \<rightharpoonup> zone_msg list))" where
  "InstanceZoneScopeLister env underspecified_names =
     (case underspecified_names of
        [] \<Rightarrow> Inl IndexError
      | instance_name # _ \<Rightarrow>
          (case core_project env of
             None \<Rightarrow> Inl RequiredPropertyError
           | Some project \<Rightarrow>
               (case MakeRequests env (aggregated_list_request_for env project instance_name) of
                  (matching_instances, errors) \<Rightarrow>
                    if errors \<noteq> []
                    then Inr ([log_debug (''Errors fetching filtered aggregate list:''
                                 @ [CHR 0x0A] @ py_format_list errors),
                               log_status_Print
                                 (''Error fetching possible zones for instance: [''
                                  @ py_join '', '' underspecified_names @ ''].'')],
                              [ZONE \<mapsto> zones_service_List env project])
                    else if matching_instances = []
                    then Inr ([log_debug (''Errors fetching filtered aggregate list:''
                                 @ [CHR 0x0A] @ py_format_list errors),
                               log_status_Print
                                 (''Unable to find an instance with name [''
                                  @ instance_name @ ''].'')],
                              [ZONE \<mapsto> zones_service_List env project])
                    else Inr ([],
                              [ZONE \<mapsto> map (\<lambda>i. Zone (REGISTRY_Parse_zone env
                                                         (instance_msg_zone i) project))
                                          matching_instances]))))"

section \<open>Dataproc: delete job\<close>

text \<open>
  The command's collaborators, none of them among the sources, as the command uses them:
  \<open>util.ParseJob\<close>, the console's \<open>PromptContinue\<close> (the operator's answer to a message),
  the client's \<open>projects_jobs.Delete\<close>, which acts on the remote job records and may
  raise, \<open>util.WaitForResourceDeletion\<close>, and the decorator \<open>util.HandleHttpError\<close>,
  which sees every exception that leaves the body. The remote job records are of any
  type \<open>'r\<close>; the calls made are recorded in order.
\<close>

record job_ref =
  projectId :: string
  jobId :: string

record delete_request =
  request_projectId :: string
  request_jobId :: string

datatype call =
    PromptContinue_call string
  | Delete_call delete_request
  | WaitForResourceDeletion_call job_ref
  | DeletedResource_log job_ref

record 'r world =
  remote :: 'r
  calls :: "call list"

record 'r delete_env =
  ParseJob :: "string \<Rightarrow> exn + job_ref"
  PromptContinue :: "string \<Rightarrow> bool"
  projects_jobs_Delete :: "delete_request \<Rightarrow> 'r \<Rightarrow> 'r \<times> exn option"
  WaitForResourceDeletion :: "job_ref \<Rightarrow> 'r \<Rightarrow> exn option"
  HandleHttpError :: "exn \<Rightarrow> exn"

definition prompt_message :: "string \<Rightarrow> string" where
  "prompt_message job_id = ''The job '' @ [CHR 0x27] @ job_id @ [CHR 0x27] @ '' will be deleted.''"

definition record_call :: "call \<Rightarrow> 'r world \<Rightarrow> 'r world" where
  "record_call c w = w\<lparr>calls := calls w @ [c]\<rparr>"

definition Delete_Run :: "'r delete_env \<Rightarrow> string \<Rightarrow> 'r world \<Rightarrow> (exn + unit) \<times> 'r world" where
  "Delete_Run env job_id w =
     (case ParseJob env job_id of
        Inl e \<Rightarrow> (Inl (HandleHttpError env e), w)
      | Inr ref \<Rightarrow>
          (let request = \<lparr> request_projectId = projectId ref, request_jobId = jobId ref \<rparr>;
               w1 = record_call (PromptContinue_call (prompt_message job_id)) w
           in if \<not> PromptContinue env (prompt_message job_id)
              then (Inl (HandleHttpError env (ToolException ''Deletion aborted by user.'')), w1)
              else (case projects_jobs_Delete env request (remote w1) of
                      (r, Some e) \<Rightarrow>
                        (Inl (HandleHttpError env e),
                         (record_call (Delete_call request) w1)\<lparr>remote := r\<rparr>)
                    | (r, None) \<Rightarrow>
                        (let w2 = (record_call (Delete_call request) w1)\<lparr>remote := r\<rparr>;
                             w3 = record_call (WaitForResourceDeletion_call ref) w2
                         in case WaitForResourceDeletion env ref r of
                              Some e \<Rightarrow> (Inl (HandleHttpError env e), w3)
                            | None \<Rightarrow> (Inr (), record_call (DeletedResource_log ref) w3)))))"

section \<open>Firebase test: Android models list\<close>

text \<open>
  The fields of a catalog model that the command reads. \<open>supportedVersionIds\<close> is a
  repeated field, so a list; the comprehension keeps a model when that list is truthy,
  that is non-empty.
\<close>

record android_model =
  model_id :: string
  supportedVersionIds :: "string list"

record android_catalog =
  models :: "android_model list"

definition models_list_Run :: "android_catalog \<Rightarrow> android_model list" where
  "models_list_Run catalog =
     [model. model \<leftarrow> models catalog, supportedVersionIds model \<noteq> []]"

section \<open>Example inputs\<close>

definition disk_rw :: pydict where
  "disk_rw = [''name'' \<mapsto> ''d1'', ''mode'' \<mapsto> ''rw'']"

definition disk_ro :: pydict where
  "disk_ro = [''name'' \<mapsto> ''d0'', ''mode'' \<mapsto> ''ro'']"

definition boot_yes :: pydict where
  "boot_yes = [''name'' \<mapsto> ''d2'', ''boot'' \<mapsto> ''yes'']"

definition boot_maybe :: pydict where
  "boot_maybe = [''name'' \<mapsto> ''d3'', ''boot'' \<mapsto> ''maybe'']"

definition base_args :: disk_args where
  "base_args = \<lparr> disk = None, instance_names = [''vm1''], image = None,
     boot_disk_device_name = None, boot_disk_type = None, boot_disk_size = None,
     boot_disk_auto_delete = True, boot_disk_kms_key = None,
     boot_disk_kms_keyring = None, boot_disk_kms_location = None,
     boot_disk_kms_project = None \<rparr>"

definition sa_args :: service_account_args where
  "sa_args = \<lparr> no_service_account = True, no_scopes = False, scopes = None \<rparr>"

definition ni_default :: nidict where
  "ni_default = [''network'' \<mapsto> Some ''default'', ''no-address'' \<mapsto> None]"

definition ni_both :: nidict where
  "ni_both = [''address'' \<mapsto> Some ''10.0.0.5'', ''no-address'' \<mapsto> None]"

definition nic_base :: nic_args where
  "nic_base = \<lparr> network_interface = Some [ni_default], address = None, network = None,
     private_network_ip = None, subnet = None \<rparr>"

definition ssd_of_size :: "int \<Rightarrow> local_ssd_entry" where
  "ssd_of_size v = \<lparr> ssd_device_name = None, ssd_interface = Some ''NVME'', ssd_size = Some v \<rparr>"

definition inst_a :: instance_msg where
  "inst_a = \<lparr> instance_msg_name = ''vm1'', instance_msg_zone = ''zones/us-central1-a'' \<rparr>"

definition inst_b :: instance_msg where
  "inst_b = \<lparr> instance_msg_name = ''vm1'', instance_msg_zone = ''zones/europe-west1-b'' \<rparr>"

definition all_zones :: "zone_msg list" where
  "all_zones = [Zone ''us-central1-a'', Zone ''us-central1-b'', Zone ''europe-west1-b'']"

definition env_with :: "instance_msg list \<times> string list \<Rightarrow> lister_env" where
  "env_with answer = \<lparr> core_project = Some ''my-project'', MAX_RESULTS_PER_PAGE = 500,
     MakeRequests = (\<lambda>_. answer), zones_service_List = (\<lambda>_. all_zones),
     REGISTRY_Parse_zone = (\<lambda>ref _. drop 6 ref) \<rparr>"

definition jobs_env :: "bool \<Rightarrow> string list delete_env" where
  "jobs_env answer = \<lparr> ParseJob = (\<lambda>job_id. Inr \<lparr> projectId = ''my-project'', jobId = job_id \<rparr>),
     PromptContinue = (\<lambda>_. answer),
     projects_jobs_Delete = (\<lambda>request jobs. (removeAll (request_jobId request) jobs, None)),
     WaitForResourceDeletion = (\<lambda>_ _. None),
     HandleHttpError = (\<lambda>e. e) \<rparr>"

definition jobs_world :: "string list world" where
  "jobs_world = \<lparr> remote = [''job-1'', ''job-2''], calls = [] \<rparr>"

definition model_a :: android_model where
  "model_a = \<lparr> model_id = ''Nexus5'', supportedVersionIds = [''19'', ''21''] \<rparr>"

definition model_b :: android_model where
  "model_b = \<lparr> model_id = ''Obsolete'', supportedVersionIds = [] \<rparr>"

definition model_c :: android_model where
  "model_c = \<lparr> model_id = ''Pixel'', supportedVersionIds = [''26''] \<rparr>"

section \<open>Disk access mode\<close>

lemma access_mode_loop_raises:
  "(\<exists>e. access_mode_loop names ds = Inl e) \<longleftrightarrow>
     (1 < length names \<and> (\<exists>d \<in> set ds. d ''mode'' = Some ''rw''))"
  by (induction ds) (auto simp: Let_def)

lemma access_mode_loop_single:
  "length names \<le> 1 \<Longrightarrow> access_mode_loop names ds = Inr ()"
  by (induction ds) (auto simp: Let_def)

text \<open>
  Claim C3. Disk access-mode validation raises if and only if some \<open>--disk\<close> entry has
  mode \<open>rw\<close> and the command targets more than one instance name; with a single target
  instance the same disk list passes.
\<close>

theorem ValidateDiskAccessModeFlags_raises_iff:
  "((\<exists>e. ValidateDiskAccessModeFlags args = Inl e) \<longleftrightarrow>
      (1 < length (instance_names args) \<and>
       (\<exists>d \<in> set (or_empty (disk args)). d ''mode'' = Some ''rw'')))
   \<and> (length (instance_names args) = 1 \<longrightarrow>
      ValidateDiskAccessModeFlags (args\<lparr>disk := ds\<rparr>) = Inr ())"
  by (simp add: ValidateDiskAccessModeFlags_def access_mode_loop_raises
      access_mode_loop_single)

theorem ValidateDiskAccessModeFlags_raises_iff_witness:
  "(\<exists>e. ValidateDiskAccessModeFlags
      (base_args\<lparr>disk := Some [disk_ro, disk_rw], instance_names := [''vm1'', ''vm2'']\<rparr>) = Inl e)
   \<and> ValidateDiskAccessModeFlags (base_args\<lparr>disk := Some [disk_ro, disk_rw]\<rparr>) = Inr ()"
  using ValidateDiskAccessModeFlags_raises_iff
      [of "base_args\<lparr>disk := Some [disk_ro, disk_rw], instance_names := [''vm1'', ''vm2'']\<rparr>"]
    ValidateDiskAccessModeFlags_raises_iff [of base_args "Some [disk_ro, disk_rw]"]
  by (simp add: base_args_def disk_rw_def disk_ro_def)

section \<open>Boot disks\<close>

lemma yes_count_Nil: "yes_count [] = 0"
  by (simp add: yes_count_def)

lemma yes_count_Cons:
  "yes_count (d # ds) = (if d ''boot'' = Some ''yes'' then 1 else 0) + yes_count ds"
  by (simp add: yes_count_def)

lemma yes_count_pos: "(Suc 0 \<le> yes_count ds) = (\<exists>d \<in> set ds. d ''boot'' = Some ''yes'')"
  by (induction ds) (auto simp: yes_count_Nil yes_count_Cons)

lemma boot_loop_closed_form:
  "boot_loop seen ds =
     (if 2 \<le> (if seen then 1 else 0) + yes_count (takeWhile valid_boot ds)
      then Inl two_boot_disks_error
      else case find (\<lambda>d. \<not> valid_boot d) ds of
             None \<Rightarrow> Inr (seen \<or> 1 \<le> yes_count ds)
           | Some d \<Rightarrow> Inl (invalid_boot_value_error (d ''boot'')))"
proof (induction ds arbitrary: seen)
  case Nil
  show ?case by (simp add: yes_count_Nil)
next
  case (Cons d ds)
  show ?case
  proof (cases "valid_boot d")
    case False
    then show ?thesis
      by (auto simp: valid_boot_def yes_count_Nil Let_def)
  next
    case True
    show ?thesis
    proof (cases "d ''boot'' = Some ''yes''")
      case True
      then show ?thesis
        using \<open>valid_boot d\<close> Cons.IH [of True]
        by (cases seen) (simp_all add: yes_count_Cons Let_def split: option.split)
    next
      case False
      have step: "boot_loop seen (d # ds) = boot_loop seen ds"
        using False \<open>valid_boot d\<close> by (auto simp: valid_boot_def Let_def)
      show ?thesis
        unfolding step Cons.IH [of seen]
        using False \<open>valid_boot d\<close> by (simp add: yes_count_Cons split: option.split)
    qed
  qed
qed

lemma all_valid_find: "(\<forall>d \<in> set ds. valid_boot d) \<Longrightarrow> find (\<lambda>d. \<not> valid_boot d) ds = None"
  by (simp add: find_None_iff)

lemma all_valid_takeWhile: "(\<forall>d \<in> set ds. valid_boot d) \<Longrightarrow> takeWhile valid_boot ds = ds"
  by simp

lemma boot_loop_all_valid:
  assumes "\<forall>d \<in> set ds. valid_boot d"
  shows "boot_loop False ds =
       (if 2 \<le> yes_count ds then Inl two_boot_disks_error else Inr (1 \<le> yes_count ds))"
  unfolding boot_loop_closed_form [of False ds] all_valid_find [OF assms]
    all_valid_takeWhile [OF assms]
  by simp

lemma boot_loop_two_fails:
  assumes "2 \<le> yes_count ds"
  shows "\<exists>e. boot_loop False ds = Inl e"
proof (cases "\<forall>d \<in> set ds. valid_boot d")
  case True
  then show ?thesis using assms by (simp add: boot_loop_all_valid)
next
  case False
  then obtain d where "find (\<lambda>d. \<not> valid_boot d) ds = Some d"
    by (cases "find (\<lambda>d. \<not> valid_boot d) ds") (auto simp: find_None_iff)
  then show ?thesis
    by (simp add: boot_loop_closed_form)
qed

lemma boot_loop_returns:
  assumes "boot_loop False ds = Inr b"
  shows "b = (\<exists>d \<in> set ds. d ''boot'' = Some ''yes'')"
proof -
  from assms have "b = (1 \<le> yes_count ds)"
    by (auto simp: boot_loop_closed_form split: if_splits option.splits)
  then show ?thesis by (simp add: yes_count_pos)
qed

lemma yes_count_takeWhile_le: "yes_count (takeWhile P ds) \<le> yes_count ds"
proof -
  have "yes_count ds = yes_count (takeWhile P ds) + yes_count (dropWhile P ds)"
    unfolding yes_count_def
    by (metis filter_append length_append takeWhile_dropWhile_id)
  then show ?thesis by simp
qed

lemma invalid_not_two: "invalid_boot_value_error v \<noteq> two_boot_disks_error"
  by (simp add: invalid_boot_value_error_def two_boot_disks_error_def)

lemma two_boot_needs_two:
  assumes "boot_loop False ds = Inl two_boot_disks_error"
  shows "2 \<le> yes_count ds"
proof -
  from assms have "2 \<le> yes_count (takeWhile valid_boot ds)"
    by (simp add: boot_loop_closed_form invalid_not_two split: if_splits option.splits)
  with yes_count_takeWhile_le [of valid_boot ds] show ?thesis by simp
qed

lemma errs_distinct: "two_boot_disks_error \<noteq> boot_disk_and_image_error"
  by (simp add: boot_disk_and_image_error_def two_boot_disks_error_def)

lemma ValidateDiskBootFlags_loop_error:
  "boot_loop False (or_empty (disk args)) = Inl e \<Longrightarrow> ValidateDiskBootFlags args kms = Inl e"
  by (simp add: ValidateDiskBootFlags_def)

lemma ValidateDiskBootFlags_loop_ok:
  "boot_loop False (or_empty (disk args)) = Inr b \<Longrightarrow>
     ValidateDiskBootFlags args kms =
       (if truthy (image args) \<and> b then Inl boot_disk_and_image_error
        else if b then new_boot_disk_checks args kms else Inr ())"
  by (simp add: ValidateDiskBootFlags_def)

lemma new_boot_disk_checks_not_count_error:
  "new_boot_disk_checks args kms \<noteq> Inl two_boot_disks_error
   \<and> new_boot_disk_checks args kms \<noteq> Inl boot_disk_and_image_error"
  by (simp add: new_boot_disk_checks_def kms_checks_def two_boot_disks_error_def
      boot_disk_and_image_error_def)

lemma invalid_not_image: "invalid_boot_value_error v \<noteq> boot_disk_and_image_error"
  by (simp add: invalid_boot_value_error_def boot_disk_and_image_error_def)

text \<open>
  Claim C4, as the code has it. Two or more \<open>--disk\<close> entries with \<open>boot=yes\<close> make
  boot-disk validation fail, and so does exactly one such entry together with a non-empty
  \<open>--image\<close>. The loop checks the entries in order and stops at the first raise: the error
  is the at-least-two-boot-disks one when two \<open>boot=yes\<close> entries come before any entry
  whose \<open>boot\<close> value is neither empty, \<open>yes\<close> nor \<open>no\<close>; otherwise it is the
  invalid-value error of the first such entry. With exactly one \<open>boot=yes\<close> entry, a
  non-empty \<open>--image\<close> and only acceptable \<open>boot\<close> values the error is the
  disk-and-image one. With at most one \<open>boot=yes\<close> entry and no \<open>--image\<close>, neither of
  the two boot-disk count errors is raised.
\<close>

theorem ValidateDiskBootFlags_boot_count:
  "(2 \<le> yes_count (or_empty (disk args)) \<longrightarrow>
      (\<exists>e. ValidateDiskBootFlags args kms = Inl e))
   \<and> (2 \<le> yes_count (takeWhile valid_boot (or_empty (disk args))) \<longrightarrow>
      ValidateDiskBootFlags args kms = Inl two_boot_disks_error)
   \<and> (yes_count (takeWhile valid_boot (or_empty (disk args))) < 2 \<longrightarrow>
      (\<forall>d. find (\<lambda>d. \<not> valid_boot d) (or_empty (disk args)) = Some d \<longrightarrow>
         ValidateDiskBootFlags args kms = Inl (invalid_boot_value_error (d ''boot''))))
   \<and> (yes_count (or_empty (disk args)) = 1 \<and> truthy (image args) \<longrightarrow>
      (\<exists>e. ValidateDiskBootFlags args kms = Inl e))
   \<and> (yes_count (or_empty (disk args)) = 1 \<and> truthy (image args)
        \<and> (\<forall>d \<in> set (or_empty (disk args)). valid_boot d) \<longrightarrow>
      ValidateDiskBootFlags args kms = Inl boot_disk_and_image_error)
   \<and> (yes_count (or_empty (disk args)) \<le> 1 \<and> \<not> truthy (image args) \<longrightarrow>
      ValidateDiskBootFlags args kms \<noteq> Inl two_boot_disks_error
      \<and> ValidateDiskBootFlags args kms \<noteq> Inl boot_disk_and_image_error)"
proof -
  define ds where "ds = or_empty (disk args)"
  have two: "\<exists>e. ValidateDiskBootFlags args kms = Inl e" if "2 \<le> yes_count ds"
    using boot_loop_two_fails [OF that] ValidateDiskBootFlags_loop_error [of args _ kms]
    unfolding ds_def by blast
  have two_msg: "ValidateDiskBootFlags args kms = Inl two_boot_disks_error"
    if "2 \<le> yes_count (takeWhile valid_boot ds)"
    using that unfolding ds_def
    by (intro ValidateDiskBootFlags_loop_error) (simp add: boot_loop_closed_form)
  have inv_msg: "ValidateDiskBootFlags args kms = Inl (invalid_boot_value_error (d ''boot''))"
    if "yes_count (takeWhile valid_boot ds) < 2" "find (\<lambda>d. \<not> valid_boot d) ds = Some d" for d
    using that unfolding ds_def
    by (intro ValidateDiskBootFlags_loop_error) (simp add: boot_loop_closed_form)
  have img: "\<exists>e. ValidateDiskBootFlags args kms = Inl e"
    if "yes_count ds = 1" "truthy (image args)"
  proof (cases "boot_loop False ds")
    case (Inl e)
    then show ?thesis
      using ValidateDiskBootFlags_loop_error [of args e kms] unfolding ds_def by blast
  next
    case (Inr b)
    from boot_loop_returns [OF Inr] that(1) have b
      using yes_count_pos [of ds] by simp
    with Inr that(2) show ?thesis
      using ValidateDiskBootFlags_loop_ok [of args b kms] unfolding ds_def by simp
  qed
  have img_msg: "ValidateDiskBootFlags args kms = Inl boot_disk_and_image_error"
    if "yes_count ds = 1" "truthy (image args)" "\<forall>d \<in> set ds. valid_boot d"
  proof -
    have "boot_loop False ds = Inr True"
      using that(1) by (simp add: boot_loop_all_valid [OF that(3)])
    then show ?thesis
      using that(2) ValidateDiskBootFlags_loop_ok [of args True kms] unfolding ds_def by simp
  qed
  have pass: "ValidateDiskBootFlags args kms \<noteq> Inl two_boot_disks_error
      \<and> ValidateDiskBootFlags args kms \<noteq> Inl boot_disk_and_image_error"
    if "yes_count ds \<le> 1" "\<not> truthy (image args)"
  proof (cases "boot_loop False ds")
    case (Inl e)
    have "e \<noteq> two_boot_disks_error"
      using two_boot_needs_two [of ds] Inl that(1) by auto
    moreover have "e \<noteq> boot_disk_and_image_error"
      using Inl errs_distinct invalid_not_image
      by (auto simp: boot_loop_closed_form split: if_splits option.splits)
    ultimately show ?thesis
      using ValidateDiskBootFlags_loop_error [of args e kms] Inl unfolding ds_def by simp
  next
    case (Inr b)
    then show ?thesis
      using that(2) ValidateDiskBootFlags_loop_ok [of args b kms]
        new_boot_disk_checks_not_count_error [of args kms]
      unfolding ds_def by simp
  qed
  show ?thesis
    using two two_msg inv_msg img img_msg pass unfolding ds_def by blast
qed

theorem ValidateDiskBootFlags_boot_count_witness:
  "ValidateDiskBootFlags (base_args\<lparr>disk := Some [boot_yes, disk_ro, boot_yes]\<rparr>) False
     = Inl two_boot_disks_error
   \<and> ValidateDiskBootFlags (base_args\<lparr>disk := Some [boot_yes], image := Some ''debian-9''\<rparr>) False
     = Inl boot_disk_and_image_error
   \<and> ValidateDiskBootFlags (base_args\<lparr>disk := Some [boot_yes, disk_ro]\<rparr>) False
     \<noteq> Inl two_boot_disks_error
   \<and> ValidateDiskBootFlags (base_args\<lparr>disk := Some [boot_yes, boot_maybe]\<rparr>) False
     = Inl (invalid_boot_value_error (Some ''maybe''))"
  using ValidateDiskBootFlags_boot_count
      [of "base_args\<lparr>disk := Some [boot_yes, disk_ro, boot_yes]\<rparr>" False]
    ValidateDiskBootFlags_boot_count
      [of "base_args\<lparr>disk := Some [boot_yes], image := Some ''debian-9''\<rparr>" False]
    ValidateDiskBootFlags_boot_count
      [of "base_args\<lparr>disk := Some [boot_yes, disk_ro]\<rparr>" False]
    ValidateDiskBootFlags_boot_count
      [of "base_args\<lparr>disk := Some [boot_yes, boot_maybe]\<rparr>" False]
  by (simp add: base_args_def boot_yes_def boot_maybe_def disk_ro_def yes_count_def
      valid_boot_def)

text \<open>
  Claim C4 as stated names the at-least-two-boot-disks error for every list with two
  \<open>boot=yes\<close> entries. With \<open>boot=maybe\<close> between them the loop raises the invalid-value
  error first.
\<close>

theorem ValidateDiskBootFlags_invalid_boot_first:
  "yes_count [boot_yes, boot_maybe, boot_yes] = 2
   \<and> ValidateDiskBootFlags (base_args\<lparr>disk := Some [boot_yes, boot_maybe, boot_yes]\<rparr>) False
     = Inl (ToolException ''Value for [boot] in [--disk] must be [yes] or [no], not [maybe].'')
   \<and> ValidateDiskBootFlags (base_args\<lparr>disk := Some [boot_yes, boot_maybe, boot_yes]\<rparr>) False
     \<noteq> Inl two_boot_disks_error"
  by (simp add: ValidateDiskBootFlags_def base_args_def boot_yes_def boot_maybe_def
      yes_count_def invalid_boot_value_error_def two_boot_disks_error_def Let_def)

text \<open>
  Claim C5, as the code has it. When some \<open>--disk\<close> entry carries \<open>boot=yes\<close>, a
  non-empty \<open>--boot-disk-device-name\<close> or \<open>--boot-disk-type\<close>, a non-zero
  \<open>--boot-disk-size\<close>, or a disabled \<open>--boot-disk-auto-delete\<close> makes validation fail.
  The code tests the truth value of each flag, not whether it was given.
\<close>

theorem ValidateDiskBootFlags_new_disk_flags:
  assumes "\<exists>d \<in> set (or_empty (disk args)). d ''boot'' = Some ''yes''"
    and "truthy (boot_disk_device_name args) \<or> truthy (boot_disk_type args)
         \<or> truthy_int (boot_disk_size args) \<or> \<not> boot_disk_auto_delete args"
  shows "\<exists>e. ValidateDiskBootFlags args kms = Inl e"
proof (cases "boot_loop False (or_empty (disk args))")
  case (Inl e)
  then show ?thesis
    using ValidateDiskBootFlags_loop_error [of args e kms] by blast
next
  case (Inr b)
  from boot_loop_returns [OF Inr] assms(1) have b by simp
  have "\<exists>e. new_boot_disk_checks args kms = Inl e"
    using assms(2) by (auto simp: new_boot_disk_checks_def)
  with \<open>b\<close> show ?thesis
    using ValidateDiskBootFlags_loop_ok [OF Inr, of kms] by auto
qed

theorem ValidateDiskBootFlags_new_disk_flags_witness:
  "(\<exists>e. ValidateDiskBootFlags
      (base_args\<lparr>disk := Some [disk_ro, boot_yes], boot_disk_type := Some ''pd-ssd''\<rparr>) False = Inl e)
   \<and> (\<exists>e. ValidateDiskBootFlags
      (base_args\<lparr>disk := Some [boot_yes], boot_disk_auto_delete := False\<rparr>) True = Inl e)"
  using ValidateDiskBootFlags_new_disk_flags
      [of "base_args\<lparr>disk := Some [disk_ro, boot_yes], boot_disk_type := Some ''pd-ssd''\<rparr>" False]
    ValidateDiskBootFlags_new_disk_flags
      [of "base_args\<lparr>disk := Some [boot_yes], boot_disk_auto_delete := False\<rparr>" True]
  by (simp add: base_args_def boot_yes_def disk_ro_def)

text \<open>
  Claim C5 as stated covers every way of setting the flags. An existing boot disk with
  \<open>--boot-disk-device-name\<close> set to the empty string passes validation.
\<close>

theorem ValidateDiskBootFlags_empty_device_name:
  "boot_yes ''boot'' = Some ''yes''
   \<and> boot_disk_device_name (base_args\<lparr>disk := Some [boot_yes], boot_disk_device_name := Some ''''\<rparr>)
       = Some ''''
   \<and> ValidateDiskBootFlags
       (base_args\<lparr>disk := Some [boot_yes], boot_disk_device_name := Some ''''\<rparr>) False = Inr ()"
  by (simp add: ValidateDiskBootFlags_def new_boot_disk_checks_def base_args_def boot_yes_def
      Let_def)

section \<open>Service account and scopes\<close>

lemma scopes_loop_error:
  "scopes_loop ss = Inl e \<Longrightarrow>
     e = InvalidArgumentException ''--scopes'' ''Scope cannot be an empty string.''"
  by (induction ss) (auto split: if_splits)

text \<open>
  Claim C6. If \<open>--no-service-account\<close> is set and \<open>--no-scopes\<close> is not,
  service-account validation raises a \<open>RequiredArgumentException\<close> naming \<open>--no-scopes\<close>;
  if \<open>--no-scopes\<close> is set too, or \<open>--no-service-account\<close> is unset, no
  \<open>RequiredArgumentException\<close> is raised.
\<close>

theorem ValidateServiceAccountAndScopeArgs_requires_no_scopes:
  "(no_service_account args \<and> \<not> no_scopes args \<longrightarrow>
      ValidateServiceAccountAndScopeArgs args =
        Inl (RequiredArgumentException ''--no-scopes''
              ''required with argument --no-service-account''))
   \<and> (no_scopes args \<or> \<not> no_service_account args \<longrightarrow>
      (\<forall>a b. ValidateServiceAccountAndScopeArgs args \<noteq> Inl (RequiredArgumentException a b)))"
proof -
  have "ValidateServiceAccountAndScopeArgs args \<noteq> Inl (RequiredArgumentException a b)"
    if "no_scopes args \<or> \<not> no_service_account args" for a b
  proof
    assume "ValidateServiceAccountAndScopeArgs args = Inl (RequiredArgumentException a b)"
    with that have "scopes_loop (or_empty (scopes args)) = Inl (RequiredArgumentException a b)"
      by (auto simp: ValidateServiceAccountAndScopeArgs_def)
    from scopes_loop_error [OF this] show False by simp
  qed
  then show ?thesis
    by (simp add: ValidateServiceAccountAndScopeArgs_def)
qed

theorem ValidateServiceAccountAndScopeArgs_requires_no_scopes_witness:
  "ValidateServiceAccountAndScopeArgs sa_args =
     Inl (RequiredArgumentException ''--no-scopes'' ''required with argument --no-service-account'')
   \<and> ValidateServiceAccountAndScopeArgs (sa_args\<lparr>no_scopes := True\<rparr>)
       \<noteq> Inl (RequiredArgumentException ''--no-scopes''
              ''required with argument --no-service-account'')
   \<and> ValidateServiceAccountAndScopeArgs (sa_args\<lparr>no_service_account := False\<rparr>)
       \<noteq> Inl (RequiredArgumentException ''--no-scopes''
              ''required with argument --no-service-account'')"
  using ValidateServiceAccountAndScopeArgs_requires_no_scopes [of sa_args]
    ValidateServiceAccountAndScopeArgs_requires_no_scopes [of "sa_args\<lparr>no_scopes := True\<rparr>"]
    ValidateServiceAccountAndScopeArgs_requires_no_scopes
      [of "sa_args\<lparr>no_service_account := False\<rparr>"]
  by (simp add: sa_args_def)

section \<open>Network interfaces\<close>

lemma address_loop_result:
  "address_loop nis =
     (if \<exists>ni \<in> set nis. ni ''address'' \<noteq> None \<and> ni ''no-address'' \<noteq> None
      then Inl (InvalidArgumentException ''--network-interface''
             ''specifies both address and no-address for one interface'')
      else Inr ())"
  by (induction nis) auto

lemma getattr_nic_fields: "getattr_nic args ''address'' = address args"
  "getattr_nic args ''network'' = network args"
  "getattr_nic args ''private_network_ip'' = private_network_ip args"
  "getattr_nic args ''subnet'' = subnet args"
  by (simp_all add: getattr_nic_def)

lemma replace_underscore_fields: "replace_underscore ''address'' = ''address''"
  "replace_underscore ''network'' = ''network''"
  "replace_underscore ''private_network_ip'' = ''private-network-ip''"
  "replace_underscore ''subnet'' = ''subnet''"
  by (simp_all add: replace_underscore_def)


lemma present_eq:
  "[arg. arg \<leftarrow> [''address'', ''network'', ''private_network_ip'', ''subnet''],
        truthy (getattr_nic args arg)] =
     (if truthy (address args) then [''address''] else [])
     @ (if truthy (network args) then [''network''] else [])
     @ (if truthy (private_network_ip args) then [''private_network_ip''] else [])
     @ (if truthy (subnet args) then [''subnet''] else [])"
  by (simp only: list.map concat.simps getattr_nic_fields append_Nil2)

lemma flags_eq:
  "map (\<lambda>arg. ''--'' @ replace_underscore arg)
     ((if truthy (address args) then [''address''] else [])
     @ (if truthy (network args) then [''network''] else [])
     @ (if truthy (private_network_ip args) then [''private_network_ip''] else [])
     @ (if truthy (subnet args) then [''subnet''] else []))
   = standalone_flags_present args"
  unfolding standalone_flags_present_def map_append
  by (simp only: if_distrib [of "map _"] list.map replace_underscore_fields append.simps)

lemma present_Nil:
  "((if truthy (address args) then [''address''] else [])
     @ (if truthy (network args) then [''network''] else [])
     @ (if truthy (private_network_ip args) then [''private_network_ip''] else [])
     @ (if truthy (subnet args) then [''subnet''] else []) = [])
   = (standalone_flags_present args = [])"
  unfolding standalone_flags_present_def
  by (simp only: append_is_Nil_conv if_distrib [of "\<lambda>xs. xs = []"] list.distinct simp_thms if_True if_False if_bool_eq_conj)

lemma ValidateNicFlags_no_double_address:
  assumes "network_interface args = Some nis"
    and "\<not> (\<exists>ni \<in> set nis. ni ''address'' \<noteq> None \<and> ni ''no-address'' \<noteq> None)"
  shows "ValidateNicFlags args =
     (if standalone_flags_present args = [] then Inr ()
      else Inl (ConflictingArgumentsException
             [''--network-interface'',
              ''all of the following: '' @ py_join '', '' (standalone_flags_present args)]))"
proof -
  have loop: "address_loop nis = Inr ()"
    using assms(2) by (simp only: address_loop_result if_False)
  show ?thesis
    unfolding ValidateNicFlags_def assms(1) option.case loop sum.case Let_def
      present_eq flags_eq present_Nil
    by (rule refl)
qed


text \<open>
  Claim C7, as the code has it. With \<open>--network-interface\<close> present: an entry that has
  both the \<open>address\<close> and the \<open>no-address\<close> key raises an \<open>InvalidArgumentException\<close>
  before the standalone flags are looked at. Otherwise validation raises a
  \<open>ConflictingArgumentsException\<close> if and only if at least one of \<open>--address\<close>,
  \<open>--network\<close>, \<open>--private-network-ip\<close>, \<open>--subnet\<close> has a non-empty value, and the
  message lists every one of them that has.
\<close>

theorem ValidateNicFlags_conflicts:
  assumes "network_interface args = Some nis"
  shows "((\<exists>ni \<in> set nis. ni ''address'' \<noteq> None \<and> ni ''no-address'' \<noteq> None) \<longrightarrow>
      ValidateNicFlags args =
        Inl (InvalidArgumentException ''--network-interface''
              ''specifies both address and no-address for one interface''))
   \<and> (\<not> (\<exists>ni \<in> set nis. ni ''address'' \<noteq> None \<and> ni ''no-address'' \<noteq> None) \<longrightarrow>
      ((\<exists>xs. ValidateNicFlags args = Inl (ConflictingArgumentsException xs)) \<longleftrightarrow>
         (truthy (address args) \<or> truthy (network args)
          \<or> truthy (private_network_ip args) \<or> truthy (subnet args)))
      \<and> (\<forall>e. ValidateNicFlags args = Inl e \<longrightarrow>
           e = ConflictingArgumentsException
                 [''--network-interface'',
                  ''all of the following: '' @ py_join '', '' (standalone_flags_present args)])
      \<and> (truthy (address args) \<longleftrightarrow> ''--address'' \<in> set (standalone_flags_present args))
      \<and> (truthy (network args) \<longleftrightarrow> ''--network'' \<in> set (standalone_flags_present args))
      \<and> (truthy (private_network_ip args) \<longleftrightarrow>
           ''--private-network-ip'' \<in> set (standalone_flags_present args))
      \<and> (truthy (subnet args) \<longleftrightarrow> ''--subnet'' \<in> set (standalone_flags_present args)))"
proof -
  have double: "ValidateNicFlags args =
        Inl (InvalidArgumentException ''--network-interface''
              ''specifies both address and no-address for one interface'')"
    if "\<exists>ni \<in> set nis. ni ''address'' \<noteq> None \<and> ni ''no-address'' \<noteq> None"
    using that unfolding ValidateNicFlags_def assms option.case
    by (simp add: address_loop_result)
  have present: "(standalone_flags_present args \<noteq> []) \<longleftrightarrow>
      (truthy (address args) \<or> truthy (network args)
       \<or> truthy (private_network_ip args) \<or> truthy (subnet args))"
    by (simp add: standalone_flags_present_def)
  have names: "(truthy (address args) \<longleftrightarrow> ''--address'' \<in> set (standalone_flags_present args))
      \<and> (truthy (network args) \<longleftrightarrow> ''--network'' \<in> set (standalone_flags_present args))
      \<and> (truthy (private_network_ip args) \<longleftrightarrow>
           ''--private-network-ip'' \<in> set (standalone_flags_present args))
      \<and> (truthy (subnet args) \<longleftrightarrow> ''--subnet'' \<in> set (standalone_flags_present args))"
    by (simp add: standalone_flags_present_def)
  show ?thesis
  proof (cases "\<exists>ni \<in> set nis. ni ''address'' \<noteq> None \<and> ni ''no-address'' \<noteq> None")
    case True
    with double show ?thesis by simp
  next
    case False
    note eq = ValidateNicFlags_no_double_address [OF assms False]
    have "(\<exists>xs. ValidateNicFlags args = Inl (ConflictingArgumentsException xs)) \<longleftrightarrow>
         (truthy (address args) \<or> truthy (network args)
          \<or> truthy (private_network_ip args) \<or> truthy (subnet args))"
      unfolding eq present [symmetric] by simp
    moreover have "\<forall>e. ValidateNicFlags args = Inl e \<longrightarrow>
           e = ConflictingArgumentsException
                 [''--network-interface'',
                  ''all of the following: '' @ py_join '', '' (standalone_flags_present args)]"
      unfolding eq by (simp split: if_splits)
    ultimately show ?thesis
      using False names by blast
  qed
qed

theorem ValidateNicFlags_conflicts_witness:
  "ValidateNicFlags (nic_base\<lparr>network := Some ''default'', subnet := Some ''sub1''\<rparr>) =
     Inl (ConflictingArgumentsException
           [''--network-interface'', ''all of the following: --network, --subnet''])
   \<and> ValidateNicFlags nic_base = Inr ()
   \<and> ValidateNicFlags (nic_base\<lparr>network_interface := Some [ni_default, ni_both]\<rparr>) =
     Inl (InvalidArgumentException ''--network-interface''
           ''specifies both address and no-address for one interface'')"
proof -
  have a: "network_interface (nic_base\<lparr>network := Some ''default'', subnet := Some ''sub1''\<rparr>)
      = Some [ni_default]"
    and b: "network_interface nic_base = Some [ni_default]"
    and c: "network_interface (nic_base\<lparr>network_interface := Some [ni_default, ni_both]\<rparr>)
      = Some [ni_default, ni_both]"
    by (simp_all add: nic_base_def)
  show ?thesis
    using ValidateNicFlags_conflicts [OF a] ValidateNicFlags_conflicts [OF b]
      ValidateNicFlags_conflicts [OF c]
    by (simp add: nic_base_def ni_default_def ni_both_def standalone_flags_present_def
        ValidateNicFlags_no_double_address)
qed

text \<open>
  Claim C7 as stated makes the conflict error depend on the standalone flags alone. With
  \<open>--network\<close> set and an interface entry that has both \<open>address\<close> and \<open>no-address\<close>,
  the error raised is the \<open>InvalidArgumentException\<close>.
\<close>

theorem ValidateNicFlags_double_address_first:
  "network (nic_base\<lparr>network_interface := Some [ni_both], network := Some ''default''\<rparr>)
     = Some ''default''
   \<and> ValidateNicFlags (nic_base\<lparr>network_interface := Some [ni_both], network := Some ''default''\<rparr>)
     = Inl (InvalidArgumentException ''--network-interface''
             ''specifies both address and no-address for one interface'')"
  by (simp add: ValidateNicFlags_def nic_base_def ni_both_def)

section \<open>Local SSD sizes\<close>

lemma parse_size_375GB: "parse_size ''375GB'' = Some (375 * BYTES_IN_ONE_GB)"
  by (simp add: parse_size_def parse_magnitude_def unit_bytes_def is_digit_def
      digit_value_def BYTES_IN_ONE_GB_def)

lemma local_ssd_size_parser_result:
  "parse_size s = Some v \<Longrightarrow>
     local_ssd_size_parser s =
       (if v < 375 * BYTES_IN_ONE_GB then Inl (MalformedInputError s) else Inr v)"
  by (simp add: local_ssd_size_parser_def BinarySize_def parse_size_375GB)

lemma local_ssd_loop_single:
  assumes "\<not> truthy (ssd_interface entry) \<or> the (ssd_interface entry) \<in> set LOCAL_SSD_INTERFACES"
    and "ssd_size entry = Some v"
    and "bytes_in_one_gb \<noteq> 0"
  shows "local_ssd_loop bytes_in_one_gb [entry] =
     (if v mod (375 * bytes_in_one_gb) \<noteq> 0
      then Inl (InvalidArgumentException ''--local-ssd:size''
             (''Unexpected local SSD size: ['' @ str_int v @ '']. ''
              @ ''Legal values are positive multiples of 375GB.''))
      else Inr ())"
  using assms by (auto simp: Let_def)

lemma parse_size_370GB: "parse_size ''370GB'' = Some (370 * 2 ^ 30)"
  by (simp add: parse_size_def parse_magnitude_def unit_bytes_def is_digit_def
      digit_value_def BYTES_IN_ONE_GB_def)

lemma parse_size_750GB: "parse_size ''750GB'' = Some (750 * 2 ^ 30)"
  by (simp add: parse_size_def parse_magnitude_def unit_bytes_def is_digit_def
      digit_value_def BYTES_IN_ONE_GB_def)

lemma parse_size_375GB_value: "parse_size ''375GB'' = Some (375 * 2 ^ 30)"
  by (simp add: parse_size_375GB BYTES_IN_ONE_GB_def)

lemma str_int_400GB: "str_int 429496729600 = ''429496729600''"
  by (simp add: str_int_def str_nat.simps digit_char_def)

text \<open>
  Claim C8, as the code has it. A local-SSD size below the declared 375 GB lower bound
  fails at parse time with a \<open>MalformedInputError\<close>; a size at or above the bound is
  accepted by the parser, which declares no granularity. The multiple-of-375GB check is
  made afterwards by \<open>ValidateLocalSsdFlags\<close>, as size modulo 375 * bytes-per-GB equal to
  zero, and a size that is not a multiple raises an \<open>InvalidArgumentException\<close> on
  \<open>--local-ssd:size\<close>; a multiple passes.
\<close>

theorem local_ssd_size_checks:
  assumes "parse_size s = Some v"
    and "\<not> truthy (ssd_interface entry) \<or> the (ssd_interface entry) \<in> set LOCAL_SSD_INTERFACES"
    and "ssd_size entry = Some v"
  shows "(v < 375 * BYTES_IN_ONE_GB \<longrightarrow>
            local_ssd_size_parser s = Inl (MalformedInputError s))
   \<and> (375 * BYTES_IN_ONE_GB \<le> v \<longrightarrow> local_ssd_size_parser s = Inr v)
   \<and> (v mod (375 * BYTES_IN_ONE_GB) \<noteq> 0 \<longrightarrow>
        ValidateLocalSsdFlags BYTES_IN_ONE_GB \<lparr> local_ssd = Some [entry] \<rparr> =
          Inl (InvalidArgumentException ''--local-ssd:size''
                (''Unexpected local SSD size: ['' @ str_int v @ '']. ''
                 @ ''Legal values are positive multiples of 375GB.'')))
   \<and> (v mod (375 * BYTES_IN_ONE_GB) = 0 \<longrightarrow>
        ValidateLocalSsdFlags BYTES_IN_ONE_GB \<lparr> local_ssd = Some [entry] \<rparr> = Inr ())"
proof -
  have nz: "BYTES_IN_ONE_GB \<noteq> 0"
    by (simp add: BYTES_IN_ONE_GB_def)
  have v: "ValidateLocalSsdFlags BYTES_IN_ONE_GB \<lparr> local_ssd = Some [entry] \<rparr> =
      local_ssd_loop BYTES_IN_ONE_GB [entry]"
    by (simp add: ValidateLocalSsdFlags_def)
  show ?thesis
    unfolding v local_ssd_loop_single [OF assms(2) assms(3) nz]
      local_ssd_size_parser_result [OF assms(1)]
    by simp
qed

theorem local_ssd_size_checks_witness:
  "local_ssd_size_parser ''370GB'' = Inl (MalformedInputError ''370GB'')
   \<and> local_ssd_size_parser ''375GB'' = Inr (375 * 2 ^ 30)
   \<and> ValidateLocalSsdFlags BYTES_IN_ONE_GB \<lparr> local_ssd = Some [ssd_of_size (375 * 2 ^ 30)] \<rparr>
       = Inr ()
   \<and> local_ssd_size_parser ''750GB'' = Inr (750 * 2 ^ 30)
   \<and> ValidateLocalSsdFlags BYTES_IN_ONE_GB \<lparr> local_ssd = Some [ssd_of_size (750 * 2 ^ 30)] \<rparr>
       = Inr ()"
proof -
  have i: "\<not> truthy (ssd_interface (ssd_of_size v))
      \<or> the (ssd_interface (ssd_of_size v)) \<in> set LOCAL_SSD_INTERFACES" for v
    by (simp add: ssd_of_size_def LOCAL_SSD_INTERFACES_def)
  have z: "ssd_size (ssd_of_size v) = Some v" for v
    by (simp add: ssd_of_size_def)
  show ?thesis
    using local_ssd_size_checks [OF parse_size_370GB i z]
      local_ssd_size_checks [OF parse_size_375GB_value i z]
      local_ssd_size_checks [OF parse_size_750GB i z]
    by (simp add: BYTES_IN_ONE_GB_def)
qed

text \<open>
  Claim C8 as stated has a size that is not a multiple of 375 GB fail at parse time with
  a \<open>MalformedInputError\<close>. \<open>400GB\<close> is above the lower bound and not a multiple: the
  parser accepts it, and the validator raises an \<open>InvalidArgumentException\<close>.
\<close>

theorem local_ssd_400GB_fails_in_validation:
  "local_ssd_size_parser ''400GB'' = Inr 429496729600
   \<and> (429496729600 :: int) mod (375 * BYTES_IN_ONE_GB) \<noteq> 0
   \<and> ValidateLocalSsdFlags BYTES_IN_ONE_GB \<lparr> local_ssd = Some [ssd_of_size 429496729600] \<rparr>
     = Inl (InvalidArgumentException ''--local-ssd:size''
         ''Unexpected local SSD size: [429496729600]. Legal values are positive multiples of 375GB.'')"
proof -
  have "local_ssd_size_parser ''400GB'' = Inr 429496729600"
    by (simp add: local_ssd_size_parser_def BinarySize_def parse_size_def parse_magnitude_def
        unit_bytes_def is_digit_def digit_value_def BYTES_IN_ONE_GB_def)
  moreover have "(429496729600 :: int) mod (375 * BYTES_IN_ONE_GB) \<noteq> 0"
    by (simp add: BYTES_IN_ONE_GB_def)
  moreover have "ValidateLocalSsdFlags BYTES_IN_ONE_GB
      \<lparr> local_ssd = Some [ssd_of_size 429496729600] \<rparr>
     = Inl (InvalidArgumentException ''--local-ssd:size''
         ''Unexpected local SSD size: [429496729600]. Legal values are positive multiples of 375GB.'')"
    by (simp add: ValidateLocalSsdFlags_def ssd_of_size_def LOCAL_SSD_INTERFACES_def
        BYTES_IN_ONE_GB_def str_int_400GB)
  ultimately show ?thesis by blast
qed

section \<open>Zone scope lister\<close>

text \<open>
  Claim C1. When the aggregated-list query for an underspecified instance name comes
  back with errors, the lister does not raise: it logs the errors and returns all zones
  of the project, the same dictionary it returns when the query finds no instance.
\<close>

theorem InstanceZoneScopeLister_query_failed:
  assumes "core_project env = Some project"
    and "MakeRequests env (aggregated_list_request_for env project name) = (matching, errors)"
    and "errors \<noteq> []"
  shows "\<exists>logs logs'.
      InstanceZoneScopeLister env (name # others) =
        Inr (logs, [ZONE \<mapsto> zones_service_List env project])
      \<and> log_debug (''Errors fetching filtered aggregate list:'' @ [CHR 0x0A]
            @ py_format_list errors) \<in> set logs
      \<and> InstanceZoneScopeLister (env\<lparr>MakeRequests := (\<lambda>_. ([], []))\<rparr>) (name # others) =
        Inr (logs', [ZONE \<mapsto> zones_service_List env project])"
  using assms by (simp add: InstanceZoneScopeLister_def aggregated_list_request_for_def)

theorem InstanceZoneScopeLister_query_failed_witness:
  "\<exists>logs logs'.
      InstanceZoneScopeLister (env_with ([], [''permission denied''])) [''vm1''] =
        Inr (logs, [ZONE \<mapsto> all_zones])
      \<and> log_debug (''Errors fetching filtered aggregate list:'' @ [CHR 0x0A]
            @ ''[permission denied]'') \<in> set logs
      \<and> InstanceZoneScopeLister (env_with ([], [])) [''vm1''] =
        Inr (logs', [ZONE \<mapsto> all_zones])"
proof -
  have p: "core_project (env_with ([], [''permission denied''])) = Some ''my-project''"
    by (simp add: env_with_def)
  have m: "MakeRequests (env_with ([], [''permission denied'']))
      (aggregated_list_request_for (env_with ([], [''permission denied''])) ''my-project'' ''vm1'')
      = ([], [''permission denied''])"
    by (simp add: env_with_def)
  have e: "[''permission denied''] \<noteq> []"
    by simp
  show ?thesis
    using InstanceZoneScopeLister_query_failed [OF p m e, of "[]"]
    by (simp add: env_with_def py_format_list_def)
qed

text \<open>
  Claim C2. When the aggregated-list query succeeds and returns candidates, the lister
  returns the zone of every candidate and nothing else: with candidates in exactly one
  zone that single zone, with one candidate in each of two zones both zones, in the
  order of the answer. It makes no choice among them.
\<close>

theorem InstanceZoneScopeLister_candidates:
  assumes "core_project env = Some project"
    and "MakeRequests env (aggregated_list_request_for env project name) = (matching, [])"
    and "matching \<noteq> []"
  shows "\<exists>zones.
      InstanceZoneScopeLister env (name # others) = Inr ([], [ZONE \<mapsto> zones])
      \<and> set zones =
          (\<lambda>i. Zone (REGISTRY_Parse_zone env (instance_msg_zone i) project)) ` set matching
      \<and> (\<forall>z. (\<forall>i \<in> set matching. REGISTRY_Parse_zone env (instance_msg_zone i) project = z)
            \<longrightarrow> set zones = {Zone z})
      \<and> (\<forall>i. matching = [i] \<longrightarrow>
            zones = [Zone (REGISTRY_Parse_zone env (instance_msg_zone i) project)])
      \<and> (\<forall>i j. matching = [i, j] \<longrightarrow>
            zones = [Zone (REGISTRY_Parse_zone env (instance_msg_zone i) project),
                     Zone (REGISTRY_Parse_zone env (instance_msg_zone j) project)])"
proof -
  let ?zones = "map (\<lambda>i. Zone (REGISTRY_Parse_zone env (instance_msg_zone i) project)) matching"
  have run: "InstanceZoneScopeLister env (name # others) = Inr ([], [ZONE \<mapsto> ?zones])"
    using assms by (simp add: InstanceZoneScopeLister_def)
  have img: "set ?zones =
      (\<lambda>i. Zone (REGISTRY_Parse_zone env (instance_msg_zone i) project)) ` set matching"
    by simp
  have one: "set ?zones = {Zone z}"
    if "\<forall>i \<in> set matching. REGISTRY_Parse_zone env (instance_msg_zone i) project = z" for z
  proof -
    from assms(3) obtain i where "i \<in> set matching"
      by (cases matching) auto
    with that show ?thesis
      unfolding img by auto
  qed
  show ?thesis
    using run img one by (intro exI [of _ ?zones]) auto
qed

theorem InstanceZoneScopeLister_candidates_witness:
  "InstanceZoneScopeLister (env_with ([inst_a], [])) [''vm1''] =
     Inr ([], [ZONE \<mapsto> [Zone ''us-central1-a'']])
   \<and> InstanceZoneScopeLister (env_with ([inst_a, inst_b], [])) [''vm1''] =
     Inr ([], [ZONE \<mapsto> [Zone ''us-central1-a'', Zone ''europe-west1-b'']])"
proof -
  have p: "core_project (env_with a) = Some ''my-project''" for a
    by (simp add: env_with_def)
  have m: "MakeRequests (env_with a) (aggregated_list_request_for (env_with a) ''my-project'' ''vm1'')
      = a" for a
    by (simp add: env_with_def)
  have z: "REGISTRY_Parse_zone (env_with a) (instance_msg_zone inst_a) ''my-project''
        = ''us-central1-a''"
      "REGISTRY_Parse_zone (env_with a) (instance_msg_zone inst_b) ''my-project''
        = ''europe-west1-b''" for a
    by (simp_all add: env_with_def inst_a_def inst_b_def)
  have "[inst_a] \<noteq> []" and "[inst_a, inst_b] \<noteq> []"
    by simp_all
  from InstanceZoneScopeLister_candidates [OF p m this(1), of "[]"]
    InstanceZoneScopeLister_candidates [OF p m this(2), of "[]"]
  show ?thesis
    by (auto simp: z)
qed

section \<open>Android models list\<close>

lemma comprehension_filter:
  "[x. x \<leftarrow> xs, P x] = filter P xs"
  by (induction xs) simp_all

text \<open>
  Claim C9. The Android models list command returns exactly the models of the catalog
  whose \<open>supportedVersionIds\<close> is non-empty, in the catalog's order; a model with an
  empty \<open>supportedVersionIds\<close> never appears in the output.
\<close>

theorem models_list_Run_keeps_supported:
  "models_list_Run catalog = filter (\<lambda>m. supportedVersionIds m \<noteq> []) (models catalog)
   \<and> subseq (models_list_Run catalog) (models catalog)
   \<and> set (models_list_Run catalog) = {m \<in> set (models catalog). supportedVersionIds m \<noteq> []}
   \<and> (\<forall>m \<in> set (models_list_Run catalog). supportedVersionIds m \<noteq> [])"
proof -
  have eq: "models_list_Run catalog
      = filter (\<lambda>m. supportedVersionIds m \<noteq> []) (models catalog)"
    unfolding models_list_Run_def by (rule comprehension_filter)
  show ?thesis
    unfolding eq by auto
qed

theorem models_list_Run_keeps_supported_witness:
  "models_list_Run \<lparr> models = [model_a, model_b, model_c, model_a] \<rparr>
     = [model_a, model_c, model_a]
   \<and> model_b \<notin> set (models_list_Run \<lparr> models = [model_a, model_b, model_c, model_a] \<rparr>)"
  using models_list_Run_keeps_supported [of "\<lparr> models = [model_a, model_b, model_c, model_a] \<rparr>"]
  by (simp add: model_a_def model_b_def model_c_def)

section \<open>Dataproc job deletion\<close>

text \<open>
  Claim C10. If the operator declines the confirmation prompt, the dataproc job delete
  command raises the \<open>ToolException\<close> \<open>Deletion aborted by user.\<close> without issuing the
  Delete request: the only call made is the prompt and the remote job records are
  unchanged. The Delete request is sent only after the operator has confirmed, right
  after the prompt.
\<close>

theorem Delete_Run_needs_confirmation:
  assumes "ParseJob env job_id = Inr ref"
  shows "(\<not> PromptContinue env (prompt_message job_id) \<longrightarrow>
      fst (Delete_Run env job_id w) =
        Inl (HandleHttpError env (ToolException ''Deletion aborted by user.''))
      \<and> remote (snd (Delete_Run env job_id w)) = remote w
      \<and> calls (snd (Delete_Run env job_id w)) =
          calls w @ [PromptContinue_call (prompt_message job_id)])
   \<and> (\<not> PromptContinue env (prompt_message job_id)
        \<and> HandleHttpError env (ToolException ''Deletion aborted by user.'')
            = ToolException ''Deletion aborted by user.'' \<longrightarrow>
      fst (Delete_Run env job_id w) = Inl (ToolException ''Deletion aborted by user.''))
   \<and> (PromptContinue env (prompt_message job_id) \<longrightarrow>
      (\<exists>rest. calls (snd (Delete_Run env job_id w)) =
         calls w @ PromptContinue_call (prompt_message job_id)
           # Delete_call \<lparr> request_projectId = projectId ref, request_jobId = jobId ref \<rparr>
           # rest))
   \<and> ((\<exists>request. Delete_call request
          \<in> set (drop (length (calls w)) (calls (snd (Delete_Run env job_id w))))) \<longrightarrow>
      PromptContinue env (prompt_message job_id))"
proof (cases "PromptContinue env (prompt_message job_id)")
  case False
  then have run: "Delete_Run env job_id w =
      (Inl (HandleHttpError env (ToolException ''Deletion aborted by user.'')),
       record_call (PromptContinue_call (prompt_message job_id)) w)"
    using assms by (simp add: Delete_Run_def Let_def)
  show ?thesis
    unfolding run using False by (simp add: record_call_def)
next
  case True
  have "\<exists>rest. calls (snd (Delete_Run env job_id w)) =
         calls w @ PromptContinue_call (prompt_message job_id)
           # Delete_call \<lparr> request_projectId = projectId ref, request_jobId = jobId ref \<rparr>
           # rest"
    using assms True
    by (simp add: Delete_Run_def Let_def record_call_def split: prod.split option.split)
  with True show ?thesis by simp
qed

theorem Delete_Run_needs_confirmation_witness:
  "Delete_Run (jobs_env False) ''job-1'' jobs_world =
     (Inl (ToolException ''Deletion aborted by user.''),
      \<lparr> remote = [''job-1'', ''job-2''],
        calls = [PromptContinue_call (prompt_message ''job-1'')] \<rparr>)
   \<and> remote (snd (Delete_Run (jobs_env True) ''job-1'' jobs_world)) = [''job-2'']
   \<and> (\<exists>rest. calls (snd (Delete_Run (jobs_env True) ''job-1'' jobs_world)) =
         PromptContinue_call (prompt_message ''job-1'')
           # Delete_call \<lparr> request_projectId = ''my-project'', request_jobId = ''job-1'' \<rparr>
           # rest)"
proof -
  have p: "ParseJob (jobs_env a) ''job-1'' = Inr \<lparr> projectId = ''my-project'', jobId = ''job-1'' \<rparr>"
    for a
    by (simp add: jobs_env_def)
  have r: "remote (snd (Delete_Run (jobs_env True) ''job-1'' jobs_world)) = [''job-2'']"
    by (simp add: Delete_Run_def jobs_env_def jobs_world_def record_call_def Let_def)
  have d: "Delete_Run (jobs_env False) ''job-1'' jobs_world =
     (Inl (ToolException ''Deletion aborted by user.''),
      \<lparr> remote = [''job-1'', ''job-2''],
        calls = [PromptContinue_call (prompt_message ''job-1'')] \<rparr>)"
    using Delete_Run_needs_confirmation [OF p [of False], of jobs_world]
    by (simp add: jobs_env_def jobs_world_def prod_eq_iff)
  have c: "\<exists>rest. calls (snd (Delete_Run (jobs_env True) ''job-1'' jobs_world)) =
         PromptContinue_call (prompt_message ''job-1'')
           # Delete_call \<lparr> request_projectId = ''my-project'', request_jobId = ''job-1'' \<rparr>
           # rest"
    using Delete_Run_needs_confirmation [OF p [of True], of jobs_world]
    by (simp add: jobs_env_def jobs_world_def)
  from d r c show ?thesis by blast
qed

end
